theory Spec2Isabelle
  imports Complex_Main "HOL-Library.Sublist"
begin

section \<open>Failures and values\<close>

text \<open>
  A raised Python exception is modelled by the names of the classes of its type, most
  specific first (the method resolution order without \<open>object\<close>), and by the text that
  \<open>str(e)\<close> yields. \<open>isinstance(e, classes)\<close>, which is also what an \<open>except classes\<close>
  clause tests, holds when one of the listed classes occurs among the classes of \<open>e\<close>.
\<close>

datatype exn = Exn (exn_mro: "string list") (exn_str: string)

definition isinstance :: "exn \<Rightarrow> string list \<Rightarrow> bool" where
  "isinstance e classes = list_ex (\<lambda>c. c \<in> set (exn_mro e)) classes"

text \<open>The built-in exceptions the interpreter and the standard library raise below.\<close>

definition TypeError :: "string \<Rightarrow> exn" where
  "TypeError msg = Exn [''TypeError'', ''Exception'', ''BaseException''] msg"

definition ValueError :: "string \<Rightarrow> exn" where
  "ValueError msg = Exn [''ValueError'', ''Exception'', ''BaseException''] msg"

definition JSONDecodeError :: "string \<Rightarrow> exn" where
  "JSONDecodeError msg =
     Exn [''JSONDecodeError'', ''ValueError'', ''Exception'', ''BaseException''] msg"

definition RecursionError :: "string \<Rightarrow> exn" where
  "RecursionError msg =
     Exn [''RecursionError'', ''RuntimeError'', ''Exception'', ''BaseException''] msg"

definition OverflowError :: "string \<Rightarrow> exn" where
  "OverflowError msg =
     Exn [''OverflowError'', ''ArithmeticError'', ''Exception'', ''BaseException''] msg"

definition AttributeError :: "string \<Rightarrow> exn" where
  "AttributeError msg = Exn [''AttributeError'', ''Exception'', ''BaseException''] msg"

text \<open>
  The values that travel as tool arguments: what \<open>json.loads\<close> can return, which is
  also what a caller can put into the \<open>arguments\<close> field of a tool call. A \<open>dict\<close> is
  an association list in insertion order.
\<close>

datatype json =
    JNull
  | JBool bool
  | JInt int
  | JFloat real
  | JStr string
  | JList "json list"
  | JDict "(string \<times> json) list"

type_synonym kwargs = "(string \<times> json) list"

fun type_name :: "json \<Rightarrow> string" where
  "type_name JNull = ''NoneType''"
| "type_name (JBool b) = ''bool''"
| "type_name (JInt i) = ''int''"
| "type_name (JFloat x) = ''float''"
| "type_name (JStr s) = ''str''"
| "type_name (JList xs) = ''list''"
| "type_name (JDict kvs) = ''dict''"

text \<open>The apostrophe that the f-strings of the source put around a tool name.\<close>

definition apos :: string where
  "apos = [CHR 0x27]"

section \<open>Tools and the registry (tools.py)\<close>

text \<open>
  \<open>ToolParameter\<close> and \<open>Tool\<close> are the two dataclasses of tools.py. The implementation
  of a tool is a callable taking keyword arguments; it returns a string or raises, and
  it may act on the world outside the registry (files, network), which is the state
  \<open>'w\<close> it transforms. Tool bodies are external collaborators: they are arbitrary
  functions of this type.
\<close>

record ToolParameter =
  param_name :: string
  param_type :: string
  param_description :: string
  param_required :: bool
  param_default :: json

type_synonym 'w tool_function = "kwargs \<Rightarrow> 'w \<Rightarrow> (exn + string) \<times> 'w"

record 'w Tool =
  tool_name :: string
  tool_description :: string
  tool_function :: "'w tool_function"
  tool_parameters :: "ToolParameter list"

text \<open>
  The schema \<open>Tool.to_json_schema\<close> returns: the dict with the keys \<open>type\<close>,
  \<open>properties\<close> and \<open>required\<close>. \<open>properties\<close> is itself a dict, built by item
  assignment: assigning to a key that is present replaces its value in place, a new key
  goes to the end.
\<close>

record property_schema =
  prop_type :: string
  prop_description :: string

record json_schema =
  schema_type :: string
  schema_properties :: "(string \<times> property_schema) list"
  schema_required :: "string list"

fun dict_set :: "('k \<times> 'v) list \<Rightarrow> 'k \<Rightarrow> 'v \<Rightarrow> ('k \<times> 'v) list" where
  "dict_set [] k v = [(k, v)]"
| "dict_set ((k', v') # d) k v = (if k' = k then (k, v) # d else (k', v') # dict_set d k v)"

text \<open>
  The loop of \<open>to_json_schema\<close> over \<open>self.parameters\<close>, carrying the two local
  variables \<open>properties\<close> and \<open>required\<close>.
\<close>

fun schema_loop ::
  "ToolParameter list \<Rightarrow> (string \<times> property_schema) list \<Rightarrow> string list \<Rightarrow>
   (string \<times> property_schema) list \<times> string list" where
  "schema_loop [] properties required = (properties, required)"
| "schema_loop (param # params) properties required =
     schema_loop params
       (dict_set properties (param_name param)
          \<lparr>prop_type = param_type param, prop_description = param_description param\<rparr>)
       (if param_required param then required @ [param_name param] else required)"

definition to_json_schema :: "'w Tool \<Rightarrow> json_schema" where
  "to_json_schema self =
     (case schema_loop (tool_parameters self) [] [] of
        (properties, required) \<Rightarrow>
          \<lparr>schema_type = ''object'', schema_properties = properties,
           schema_required = required\<rparr>)"

definition Tool_execute :: "'w Tool \<Rightarrow> 'w tool_function" where
  "Tool_execute self kwargs w = tool_function self kwargs w"

text \<open>
  The registry is the dict \<open>_tools\<close> from names to tools. The host process around it
  is the world the tools act on and the lines written to the logger, kept as
  structured records.
\<close>

record 'w ToolRegistry =
  tools :: "string \<rightharpoonup> 'w Tool"

datatype log_record =
    Debug_executing string "string list"
  | Warning_not_found string
  | Debug_completed string
  | Error_failed string string

record 'w host =
  world :: 'w
  logged :: "log_record list"

definition logger :: "log_record \<Rightarrow> 'w host \<Rightarrow> 'w host" where
  "logger r h = h\<lparr>logged := logged h @ [r]\<rparr>"

text \<open>
  \<open>register(name, description, parameters)(func)\<close>: the decorator stores a new \<open>Tool\<close>
  under the name. \<open>parameters or []\<close> turns a missing list into the empty one.
\<close>

definition register ::
  "'w ToolRegistry \<Rightarrow> string \<Rightarrow> string \<Rightarrow> ToolParameter list option \<Rightarrow>
   'w tool_function \<Rightarrow> 'w ToolRegistry" where
  "register self name description parameters func =
     (let tool = \<lparr>tool_name = name, tool_description = description, tool_function = func,
                  tool_parameters = (case parameters of None \<Rightarrow> [] | Some ps \<Rightarrow> ps)\<rparr>
      in self\<lparr>tools := (tools self)(name \<mapsto> tool)\<rparr>)"

definition get :: "'w ToolRegistry \<Rightarrow> string \<Rightarrow> 'w Tool option" where
  "get self name = tools self name"

definition clear :: "'w ToolRegistry \<Rightarrow> 'w ToolRegistry" where
  "clear self = self\<lparr>tools := Map.empty\<rparr>"

text \<open>
  \<open>ToolRegistry.execute(name, **kwargs)\<close>. The result is \<open>Inr\<close> of the returned
  string, or \<open>Inl\<close> of an exception that leaves the method. The registry is only read.
\<close>

definition execute ::
  "'w ToolRegistry \<Rightarrow> string \<Rightarrow> kwargs \<Rightarrow> 'w host \<Rightarrow> (exn + string) \<times> 'w host" where
  "execute self name kwargs h =
     (let h1 = logger (Debug_executing name (map fst kwargs)) h in
      case get self name of
        None \<Rightarrow>
          (Inr (''Error: Tool '' @ apos @ name @ apos @ '' not found.''),
           logger (Warning_not_found name) h1)
      | Some tool \<Rightarrow>
          (case Tool_execute tool kwargs (world h1) of
             (Inr result, w) \<Rightarrow> (Inr result, logger (Debug_completed name) (h1\<lparr>world := w\<rparr>))
           | (Inl e, w) \<Rightarrow>
               if isinstance e [''Exception'']
               then (Inr (''Error executing '' @ apos @ name @ apos @ '': '' @ exn_str e),
                     logger (Error_failed name (exn_str e)) (h1\<lparr>world := w\<rparr>))
               else (Inl e, h1\<lparr>world := w\<rparr>)))"

text \<open>
  The call \<open>registry.execute(name, **arguments)\<close> first unpacks \<open>arguments\<close> into
  keyword arguments. The interpreter raises \<open>TypeError\<close> when the value is not a
  mapping, and when a key names one of the positional parameters \<open>self\<close> and \<open>name\<close>
  of \<open>execute\<close>, which are bound already (the texts are those of CPython 3.11). Keys are
  strings here, so the third check of the interpreter, that keywords are strings,
  cannot fail.
\<close>

definition unpack_kwargs :: "json \<Rightarrow> exn + kwargs" where
  "unpack_kwargs arguments =
     (case arguments of
        JDict kvs \<Rightarrow>
          (case filter (\<lambda>k. k = ''self'' \<or> k = ''name'') (map fst kvs) of
             [] \<Rightarrow> Inr kvs
           | k # _ \<Rightarrow>
               Inl (TypeError (''ToolRegistry.execute() got multiple values for argument ''
                               @ apos @ k @ apos)))
      | v \<Rightarrow>
          Inl (TypeError (''tools.ToolRegistry.execute() argument after ** must be a mapping, not ''
                          @ type_name v)))"

text \<open>
  A tool call is the dict an LLM response yields; \<open>tool_call.get\<close> supplies the
  defaults \<open>""\<close> and \<open>{}\<close> for a missing key. \<open>json.loads\<close> is the decoder of the
  standard library, a parameter of the model: it returns a value or raises.
\<close>

record tool_call =
  call_name :: "string option"
  call_arguments :: "json option"

definition execute_tool_call ::
  "(string \<Rightarrow> exn + json) \<Rightarrow> 'w ToolRegistry \<Rightarrow> tool_call \<Rightarrow> 'w host \<Rightarrow>
   (exn + string) \<times> 'w host" where
  "execute_tool_call json_loads registry tc h =
     (let name = (case call_name tc of None \<Rightarrow> [] | Some n \<Rightarrow> n);
          arguments = (case call_arguments tc of None \<Rightarrow> JDict [] | Some a \<Rightarrow> a);
          run = (\<lambda>arguments.
                   case unpack_kwargs arguments of
                     Inl e \<Rightarrow> (Inl e, h)
                   | Inr kwargs \<Rightarrow> execute registry name kwargs h)
      in case arguments of
           JStr s \<Rightarrow>
             (case json_loads s of
                Inl e \<Rightarrow>
                  if isinstance e [''JSONDecodeError'']
                  then (Inr (''Error: Invalid JSON arguments for tool '' @ apos @ name @ apos), h)
                  else (Inl e, h)
              | Inr decoded \<Rightarrow> run decoded)
         | _ \<Rightarrow> run arguments)"

section \<open>The retry decorator (utils/retry.py)\<close>

text \<open>
  The delays of the decorator are Python floats. Their arithmetic is not that of the
  real numbers: results are rounded, the power operator raises \<open>OverflowError\<close> when
  its result leaves the range of a float, and comparisons have their own rules for
  \<open>nan\<close>. What Python and its standard library do is therefore a parameter of the
  model: floats are the values of a type \<open>'f\<close>, and the library is the record of the
  operations of the source on them,
  \<^item> \<open>x ** n\<close> for a float \<open>x\<close> and an int \<open>n\<close>, which returns a float or raises,
  \<^item> the product and the sum of two floats and the test \<open>x < y\<close>, which do not raise,
  \<^item> the literal \<open>0.5\<close>,
  \<^item> the sequence of numbers that successive calls of \<open>random.random()\<close> return,
  \<^item> \<open>time.sleep(d)\<close>, which blocks and returns (\<open>None\<close>) or raises (\<open>ValueError\<close>
    for a negative length, \<open>OverflowError\<close> for one that is too large).
  Nothing is assumed about these operations.
\<close>

record 'f library =
  float_pow :: "'f \<Rightarrow> int \<Rightarrow> exn + 'f"
  float_mul :: "'f \<Rightarrow> 'f \<Rightarrow> 'f"
  float_add :: "'f \<Rightarrow> 'f \<Rightarrow> 'f"
  float_less :: "'f \<Rightarrow> 'f \<Rightarrow> bool"
  float_half :: 'f
  random_random :: "nat \<Rightarrow> 'f"
  time_sleep :: "'f \<Rightarrow> exn option"

text \<open>
  The built-in \<open>min(a, b)\<close> of two arguments keeps the first unless the second is
  smaller.
\<close>

definition py_min :: "'f library \<Rightarrow> 'f \<Rightarrow> 'f \<Rightarrow> 'f" where
  "py_min lib a b = (if float_less lib b a then b else a)"

text \<open>
  The arguments of \<open>retry(...)\<close>, which the wrappers close over. \<open>exceptions\<close> is the
  tuple of class names that qualify for a retry. The callback \<open>on_retry\<close>, when given,
  is a callable of the application: it may act on the world and, like any call, it may
  raise.
\<close>

record ('f, 'w) retry_policy =
  max_attempts :: int
  base_delay :: 'f
  max_delay :: 'f
  exponential_base :: 'f
  jitter :: bool
  exceptions :: "string list"
  on_retry :: "(exn \<Rightarrow> int \<Rightarrow> 'w \<Rightarrow> (exn + unit) \<times> 'w) option"

text \<open>
  The decorated callable \<open>func\<close>: what a call of it does, with the arguments of the
  wrapper fixed, and what the attribute lookup \<open>func.__name__\<close> of the log lines
  yields, a name, or the \<open>AttributeError\<close> of a callable that has none (a
  \<open>functools.partial\<close> object, say).
\<close>

record ('w, 'a) callable =
  func_call :: "'w \<Rightarrow> (exn + 'a) \<times> 'w"
  func_name :: "exn + string"

text \<open>
  What a call of the wrapper can be observed to do: it runs in a world \<open>'w\<close> shared
  with the target and the callback, it draws numbers from \<open>random.random()\<close>, and the
  calls it makes are recorded in order: the outcome of each invocation of the target
  (\<open>None\<close> for a normal return, the exception otherwise), each call of \<open>on_retry\<close>,
  the length of each completed \<open>time.sleep\<close> and each line handed to the logger.
\<close>

datatype 'f retry_log =
    Error_exhausted string int string
  | Warning_retrying string int int 'f string

record ('f, 'w) runtime =
  rt_world :: 'w
  rt_draws :: nat
  rt_calls :: "exn option list"
  rt_callbacks :: "(exn \<times> int) list"
  rt_sleeps :: "'f list"
  rt_logged :: "'f retry_log list"

text \<open>
  The body of the \<open>except exceptions as e\<close> clause of \<open>sync_wrapper\<close>, in the order in
  which the source evaluates it. On the last attempt: the error line, whose f-string
  reads \<open>func.__name__\<close>, then the bare \<open>raise\<close>. Otherwise: the power, the product
  with the base delay and the cap by \<open>min\<close>; under jitter the draw and the product with
  \<open>0.5 + random.random()\<close>; the warning line, which reads \<open>func.__name__\<close> too; the
  callback; the sleep. Every step that can raise has its branch. \<open>Inl\<close> is an exception
  that leaves the wrapper, \<open>Inr ()\<close> lets the loop go on to the next attempt.
\<close>

definition except_clause ::
  "'f library \<Rightarrow> ('f, 'w) retry_policy \<Rightarrow> ('w, 'a) callable \<Rightarrow> exn \<Rightarrow> int \<Rightarrow>
   ('f, 'w) runtime \<Rightarrow> (exn + unit) \<times> ('f, 'w) runtime" where
  "except_clause lib pol func e attempt rt =
     (if attempt = max_attempts pol
      then
        (case func_name func of
           Inl err \<Rightarrow> (Inl err, rt)
         | Inr name \<Rightarrow>
             (Inl e, rt\<lparr>rt_logged := rt_logged rt
                        @ [Error_exhausted name (max_attempts pol) (exn_str e)]\<rparr>))
      else
        (case float_pow lib (exponential_base pol) (attempt - 1) of
           Inl err \<Rightarrow> (Inl err, rt)
         | Inr raised_to \<Rightarrow>
             let delay = py_min lib (float_mul lib (base_delay pol) raised_to) (max_delay pol);
                 (delay, rt) =
                   (if jitter pol
                    then (float_mul lib delay
                            (float_add lib (float_half lib) (random_random lib (rt_draws rt))),
                          rt\<lparr>rt_draws := Suc (rt_draws rt)\<rparr>)
                    else (delay, rt))
             in case func_name func of
                  Inl err \<Rightarrow> (Inl err, rt)
                | Inr name \<Rightarrow>
                    let rt = rt\<lparr>rt_logged := rt_logged rt
                               @ [Warning_retrying name attempt (max_attempts pol) delay
                                    (exn_str e)]\<rparr>;
                        (raised, rt) =
                          (case on_retry pol of
                             None \<Rightarrow> (None, rt)
                           | Some callback \<Rightarrow>
                               (case callback e attempt (rt_world rt) of
                                  (outcome, w) \<Rightarrow>
                                    ((case outcome of Inl e' \<Rightarrow> Some e' | Inr u \<Rightarrow> None),
                                     rt\<lparr>rt_world := w,
                                        rt_callbacks := rt_callbacks rt @ [(e, attempt)]\<rparr>)))
                    in case raised of
                         Some e' \<Rightarrow> (Inl e', rt)
                       | None \<Rightarrow>
                           (case time_sleep lib delay of
                              Some err \<Rightarrow> (Inl err, rt)
                            | None \<Rightarrow> (Inr (), rt\<lparr>rt_sleeps := rt_sleeps rt @ [delay]\<rparr>))))"

text \<open>
  The loop \<open>for attempt in range(1, max_attempts + 1)\<close> over the attempts that remain,
  with the local variable \<open>last_exception\<close>. A normal return of the target ends the
  wrapper with its result; an exception that does not match \<open>exceptions\<close> is not
  caught. After the loop the wrapper raises \<open>last_exception\<close> if there is one and
  otherwise falls off its end, returning \<open>None\<close>.
\<close>

fun attempts ::
  "'f library \<Rightarrow> ('f, 'w) retry_policy \<Rightarrow> ('w, 'a) callable \<Rightarrow> int list \<Rightarrow>
   exn option \<Rightarrow> ('f, 'w) runtime \<Rightarrow> (exn + 'a option) \<times> ('f, 'w) runtime" where
  "attempts lib pol func [] last_exception rt =
     (case last_exception of
        Some e \<Rightarrow> (Inl e, rt)
      | None \<Rightarrow> (Inr None, rt))"
| "attempts lib pol func (attempt # rest) last_exception rt =
     (case func_call func (rt_world rt) of
        (Inr result, w) \<Rightarrow>
          (Inr (Some result), rt\<lparr>rt_world := w, rt_calls := rt_calls rt @ [None]\<rparr>)
      | (Inl e, w) \<Rightarrow>
          if isinstance e (exceptions pol)
          then
            (case except_clause lib pol func e attempt
                    (rt\<lparr>rt_world := w, rt_calls := rt_calls rt @ [Some e]\<rparr>) of
               (Inl e', rt') \<Rightarrow> (Inl e', rt')
             | (Inr u, rt') \<Rightarrow> attempts lib pol func rest (Some e) rt')
          else (Inl e, rt\<lparr>rt_world := w, rt_calls := rt_calls rt @ [Some e]\<rparr>))"

definition sync_wrapper ::
  "'f library \<Rightarrow> ('f, 'w) retry_policy \<Rightarrow> ('w, 'a) callable \<Rightarrow> ('f, 'w) runtime \<Rightarrow>
   (exn + 'a option) \<times> ('f, 'w) runtime" where
  "sync_wrapper lib pol func rt = attempts lib pol func [1 .. max_attempts pol] None rt"

section \<open>Auxiliary notions and example data\<close>

text \<open>
  The length of the sleep that \<open>except_clause\<close> computes from the value \<open>raised_to\<close> of
  \<open>exponential_base ** (attempt - 1)\<close> when the next number of \<open>random.random()\<close> has
  index \<open>n\<close>. It abbreviates the statements of the lemmas on the retry loop.
\<close>

definition backoff_delay :: "'f library \<Rightarrow> ('f, 'w) retry_policy \<Rightarrow> 'f \<Rightarrow> nat \<Rightarrow> 'f" where
  "backoff_delay lib pol raised_to n =
     (let delay = py_min lib (float_mul lib (base_delay pol) raised_to) (max_delay pol)
      in if jitter pol
         then float_mul lib delay (float_add lib (float_half lib) (random_random lib n))
         else delay)"

text \<open>
  The examples below run the dispatch on a few serialized argument strings. This table
  holds what \<open>json.loads\<close> does on those strings: a thousand opening brackets, the
  malformed object of the spec, a list, \<open>null\<close> and an object. It stands in for the
  decoder in the examples only, where no other string is decoded; the theorems hold for
  every decoder.
\<close>

definition deep_array :: string where
  "deep_array = replicate 1000 (CHR ''['')"

definition json_loads_sample :: "string \<Rightarrow> exn + json" where
  \<open>json_loads_sample s =
     (if s = deep_array
      then Inl (RecursionError
             ''maximum recursion depth exceeded while decoding a JSON array from a unicode string'')
      else if s = ''{not valid json''
      then Inl (JSONDecodeError
             ''Expecting property name enclosed in double quotes: line 1 column 2 (char 1)'')
      else if s = ''[1, 2]'' then Inr (JList [JInt 1, JInt 2])
      else if s = ''null'' then Inr JNull
      else if s = ''{"path": "."}'' then Inr (JDict [(''path'', JStr ''.'')])
      else Inl (JSONDecodeError ''Expecting value: line 1 column 1 (char 0)''))\<close>

text \<open>
  A small registry over a world that counts the tool calls made: \<open>ls\<close> with the two
  parameters of the spec's schema example returns a listing, \<open>boom\<close> raises.
\<close>

definition ls_parameters :: "ToolParameter list" where
  "ls_parameters =
     [\<lparr>param_name = ''path'', param_type = ''string'', param_description = ''Directory to list'',
       param_required = False, param_default = JStr ''.''\<rparr>,
      \<lparr>param_name = ''recursive'', param_type = ''boolean'', param_description = ''Descend'',
       param_required = True, param_default = JBool False\<rparr>]"

definition list_files :: "nat tool_function" where
  "list_files kwargs w = (Inr ''a.txt'', Suc w)"

definition boom :: "nat tool_function" where
  "boom kwargs w = (Inl (ValueError ''boom''), Suc w)"

definition ls_tool :: "nat Tool" where
  "ls_tool = \<lparr>tool_name = ''ls'', tool_description = ''List files in a directory'',
              tool_function = list_files, tool_parameters = ls_parameters\<rparr>"

definition registry_sample :: "nat ToolRegistry" where
  "registry_sample =
     register (register \<lparr>tools = Map.empty\<rparr> ''ls'' ''List files in a directory''
                 (Some ls_parameters) list_files)
       ''boom'' ''Always fails'' None boom"

definition host0 :: "nat host" where
  "host0 = \<lparr>world = 0, logged = []\<rparr>"

text \<open>
  The examples of the retry wrapper use floats on which Python's arithmetic is exact:
  0, small integers, powers of two and small multiples of them. On such values this
  table of the library agrees with Python: products, sums and comparisons are the exact
  ones, and the power raises \<open>OverflowError\<close> from \<open>2 ** 1024\<close> on. \<open>random.random()\<close> is
  taken to return 0.25 every time. \<open>time.sleep\<close> rejects a negative length, returns for
  the lengths of the examples, which stay below a minute, and raises \<open>OverflowError\<close>
  from \<open>2 ** 64\<close> seconds on, far beyond the range of its clock. The table stands in for
  the library in the examples only; the lemmas hold for every library.
\<close>

definition library_sample :: "real library" where
  "library_sample =
     \<lparr>float_pow = (\<lambda>x n. if 2 ^ 1024 \<le> \<bar>x ^ nat n\<bar>
                          then Inl (OverflowError (''(34, '' @ apos @ ''Numerical result out of range''
                                                    @ apos @ '')''))
                          else Inr (x ^ nat n)),
      float_mul = (\<lambda>x y. x * y),
      float_add = (\<lambda>x y. x + y),
      float_less = (\<lambda>x y. x < y),
      float_half = 1 / 2,
      random_random = (\<lambda>n. 1 / 4),
      time_sleep = (\<lambda>d. if d < 0 then Some (ValueError ''sleep length must be non-negative'')
                         else if 2 ^ 64 \<le> d
                         then Some (OverflowError ''timestamp out of range for platform time_t'')
                         else None)\<rparr>"

text \<open>
  Retry policies and targets after the repository's tests (tests/test_retry.py): three
  attempts with jitter and a callback that returns normally, retrying \<open>ValueError\<close>
  only; a policy that retries \<open>ValueError\<close> only, for a target that raises \<open>TypeError\<close>;
  five attempts with base delay 10 capped at 15. The last policy has four attempts, base
  delay 0 and the growth factor \<open>2.0 ** 600\<close>, whose square is no float. The world counts
  the calls of the target, and the always failing target puts that count into its
  message, so that the failures of different attempts differ.
\<close>

definition runtime0 :: "(real, nat) runtime" where
  "runtime0 = \<lparr>rt_world = 0, rt_draws = 0, rt_calls = [], rt_callbacks = [], rt_sleeps = [],
               rt_logged = []\<rparr>"

definition policy3 :: "(real, nat) retry_policy" where
  "policy3 = \<lparr>max_attempts = 3, base_delay = 1 / 64, max_delay = 60, exponential_base = 2,
              jitter = False, exceptions = [''Exception''], on_retry = None\<rparr>"

definition policy_callback :: "(real, nat) retry_policy" where
  "policy_callback = \<lparr>max_attempts = 3, base_delay = 1 / 64, max_delay = 60,
              exponential_base = 2, jitter = True, exceptions = [''ValueError''],
              on_retry = Some (\<lambda>e attempt w. (Inr (), w))\<rparr>"

definition policy_value_error :: "(real, nat) retry_policy" where
  "policy_value_error = \<lparr>max_attempts = 3, base_delay = 1 / 64, max_delay = 60,
              exponential_base = 2, jitter = True, exceptions = [''ValueError''],
              on_retry = None\<rparr>"

definition policy_capped :: "(real, nat) retry_policy" where
  "policy_capped = \<lparr>max_attempts = 5, base_delay = 10, max_delay = 15, exponential_base = 2,
              jitter = True, exceptions = [''Exception''], on_retry = None\<rparr>"

definition policy_overflow :: "(real, nat) retry_policy" where
  "policy_overflow = \<lparr>max_attempts = 4, base_delay = 0, max_delay = 60,
              exponential_base = 2 ^ 600, jitter = False, exceptions = [''Exception''],
              on_retry = None\<rparr>"

definition failing_func :: "(nat, string) callable" where
  "failing_func =
     \<lparr>func_call = (\<lambda>w. (Inl (ValueError (''Persistent error '' @ replicate w CHR ''I'')), Suc w)),
      func_name = Inr ''failing_func''\<rparr>"

definition func_with_wrong_exception :: "(nat, string) callable" where
  "func_with_wrong_exception =
     \<lparr>func_call = (\<lambda>w. (Inl (TypeError ''Not retried''), Suc w)),
      func_name = Inr ''func_with_wrong_exception''\<rparr>"

text \<open>
  The same target as a callable without the attribute \<open>__name__\<close>, as a
  \<open>functools.partial\<close> object is.
\<close>

definition failing_partial :: "(nat, string) callable" where
  "failing_partial =
     failing_func\<lparr>func_name :=
       Inl (AttributeError (apos @ ''functools.partial'' @ apos @ '' object has no attribute ''
                            @ apos @ ''__name__'' @ apos))\<rparr>"

text \<open>
  The table of the library once more, for the largest number \<open>random.random()\<close> can
  return, \<open>1 - 2 ** -53\<close>: Python's sum \<open>0.5 + (1 - 2 ** -53)\<close> is rounded to \<open>1.5\<close>.
\<close>

definition library_rounding :: "real library" where
  "library_rounding =
     library_sample
       \<lparr>float_add := (\<lambda>x y. if x = 1 / 2 \<and> y = 1 - 1 / 2 ^ 53 then 3 / 2 else x + y),
        random_random := (\<lambda>n. 1 - 1 / 2 ^ 53)\<rparr>"

section \<open>Basic facts\<close>

lemma isinstance_simps [simp]:
  "isinstance e [] = False"
  "isinstance e (c # cs) = (c \<in> set (exn_mro e) \<or> isinstance e cs)"
  by (simp_all add: isinstance_def)

lemma sublist_mid: "sublist xs (ps @ xs @ ss)"
  unfolding sublist_def by blast

lemma short_not_deep_array [simp]: "length s < 1000 \<Longrightarrow> (s = deep_array) = False"
  by (auto simp: deep_array_def)

lemma registry_sample_tools:
  "get registry_sample ''ls'' = Some ls_tool"
  "get registry_sample ''boom'' =
     Some \<lparr>tool_name = ''boom'', tool_description = ''Always fails'', tool_function = boom,
           tool_parameters = []\<rparr>"
  "get registry_sample ''nonexistent'' = None"
  by (simp_all add: registry_sample_def register_def get_def ls_tool_def)

section \<open>The dispatch boundary\<close>

text \<open>
  C2, as amended. For every name that is not a key of the registry, \<open>execute\<close> returns
  (it does not raise) the string \<open>Error: Tool '<name>' not found.\<close>, having logged the
  call and the warning and left the world alone. The string carries the prefix
  \<open>Error: \<close> before the text \<open>Tool '<name>' not found.\<close> of the claim; it contains that
  text, the words \<open>not found\<close> and the requested name.
\<close>

theorem execute_unknown_tool:
  assumes "name \<notin> dom (tools self)"
  shows "execute self name kwargs h =
           (Inr (''Error: Tool '' @ apos @ name @ apos @ '' not found.''),
            h\<lparr>logged := logged h @ [Debug_executing name (map fst kwargs),
                                     Warning_not_found name]\<rparr>)
       \<and> sublist (''Tool '' @ apos @ name @ apos @ '' not found.'')
           (''Error: Tool '' @ apos @ name @ apos @ '' not found.'')
       \<and> sublist ''not found'' (''Error: Tool '' @ apos @ name @ apos @ '' not found.'')
       \<and> sublist name (''Error: Tool '' @ apos @ name @ apos @ '' not found.'')"
proof -
  from assms have g: "get self name = None"
    by (auto simp: get_def)
  have run: "execute self name kwargs h =
           (Inr (''Error: Tool '' @ apos @ name @ apos @ '' not found.''),
            h\<lparr>logged := logged h @ [Debug_executing name (map fst kwargs),
                                     Warning_not_found name]\<rparr>)"
    by (simp add: execute_def g logger_def)
  have form: "sublist (''Tool '' @ apos @ name @ apos @ '' not found.'')
           (''Error: Tool '' @ apos @ name @ apos @ '' not found.'')"
    using sublist_mid[of "''Tool '' @ apos @ name @ apos @ '' not found.''" "''Error: ''" "[]"]
    by simp
  have words: "sublist ''not found'' (''Error: Tool '' @ apos @ name @ apos @ '' not found.'')"
    using sublist_mid[of "''not found''" "''Error: Tool '' @ apos @ name @ apos @ '' ''" "''.''"]
    by simp
  have nm: "sublist name (''Error: Tool '' @ apos @ name @ apos @ '' not found.'')"
    using sublist_mid[of name "''Error: Tool '' @ apos" "apos @ '' not found.''"]
    by simp
  from run form words nm show ?thesis by blast
qed

theorem execute_unknown_tool_witness:
  "''nonexistent'' \<notin> dom (tools registry_sample)
   \<and> execute registry_sample ''nonexistent'' [] host0 =
       (Inr (''Error: Tool '' @ apos @ ''nonexistent'' @ apos @ '' not found.''),
        \<lparr>world = 0, logged = [Debug_executing ''nonexistent'' [],
                              Warning_not_found ''nonexistent'']\<rparr>)"
proof -
  have absent: "''nonexistent'' \<notin> dom (tools registry_sample)"
    by (simp add: registry_sample_def register_def)
  from execute_unknown_tool[OF absent, of "[]" host0] absent show ?thesis
    by (simp add: host0_def)
qed

text \<open>
  C2 as stated fails: the string returned for the unregistered name \<open>nonexistent\<close> is
  not of the exact form \<open>Tool 'nonexistent' not found.\<close>
\<close>

theorem execute_unknown_tool_exact_form_counterexample:
  "fst (execute registry_sample ''nonexistent'' [] host0)
     \<noteq> Inr (''Tool '' @ apos @ ''nonexistent'' @ apos @ '' not found.'')"
  by (simp add: execute_def registry_sample_tools logger_def)

text \<open>
  C3. A failure is an instance of \<open>Exception\<close>: these are the classes the clause
  \<open>except Exception\<close> of \<open>execute\<close> catches, and the tuple \<open>(Exception,)\<close> is what the
  spec calls all failure kinds. For every registered tool whose implementation raises
  such a failure \<open>e\<close>, \<open>execute\<close> returns the string
  \<open>Error executing '<name>': <str(e)>\<close>, which contains the tool name and the message,
  instead of raising. The call only adds its two log lines and the tool's own effect on
  the world; the registry is read, never written, so a later call through it still
  returns the result of the tool it names.
\<close>

theorem execute_contains_tool_failure:
  assumes "get self name = Some tool"
      and "Tool_execute tool kwargs (world h) = (Inl e, w)"
      and "isinstance e [''Exception'']"
  shows "execute self name kwargs h =
           (Inr (''Error executing '' @ apos @ name @ apos @ '': '' @ exn_str e),
            h\<lparr>world := w,
              logged := logged h @ [Debug_executing name (map fst kwargs),
                                    Error_failed name (exn_str e)]\<rparr>)
       \<and> sublist name (''Error executing '' @ apos @ name @ apos @ '': '' @ exn_str e)
       \<and> sublist (exn_str e) (''Error executing '' @ apos @ name @ apos @ '': '' @ exn_str e)
       \<and> (\<forall>name2 tool2 kwargs2 result w2.
             get self name2 = Some tool2 \<and> Tool_execute tool2 kwargs2 w = (Inr result, w2)
             \<longrightarrow> fst (execute self name2 kwargs2 (snd (execute self name kwargs h)))
                   = Inr result)"
proof -
  let ?msg = "''Error executing '' @ apos @ name @ apos @ '': '' @ exn_str e"
  let ?h' = "h\<lparr>world := w,
              logged := logged h @ [Debug_executing name (map fst kwargs),
                                    Error_failed name (exn_str e)]\<rparr>"
  have run: "execute self name kwargs h = (Inr ?msg, ?h')"
    using assms by (simp add: execute_def logger_def)
  have nm: "sublist name ?msg"
    using sublist_mid[of name "''Error executing '' @ apos" "apos @ '': '' @ exn_str e"]
    by simp
  have msg: "sublist (exn_str e) ?msg"
    using sublist_mid[of "exn_str e" "''Error executing '' @ apos @ name @ apos @ '': ''" "[]"]
    by simp
  have later: "fst (execute self name2 kwargs2 (snd (execute self name kwargs h))) = Inr result"
    if "get self name2 = Some tool2" "Tool_execute tool2 kwargs2 w = (Inr result, w2)"
    for name2 tool2 kwargs2 result w2
    using that by (simp add: run) (simp add: execute_def logger_def)
  from run nm msg later show ?thesis by blast
qed

theorem execute_contains_tool_failure_witness:
  "execute registry_sample ''boom'' [] host0 =
     (Inr (''Error executing '' @ apos @ ''boom'' @ apos @ '': boom''),
      \<lparr>world = 1, logged = [Debug_executing ''boom'' [], Error_failed ''boom'' ''boom'']\<rparr>)
   \<and> fst (execute registry_sample ''ls'' [(''path'', JStr ''.'')]
            (snd (execute registry_sample ''boom'' [] host0))) = Inr ''a.txt''"
proof -
  have raised: "Tool_execute \<lparr>tool_name = ''boom'', tool_description = ''Always fails'',
                   tool_function = boom, tool_parameters = []\<rparr> [] (world host0)
                 = (Inl (ValueError ''boom''), 1)"
    by (simp add: Tool_execute_def boom_def host0_def)
  have failure: "isinstance (ValueError ''boom'') [''Exception'']"
    by (simp add: ValueError_def)
  have ls: "Tool_execute ls_tool [(''path'', JStr ''.'')] 1 = (Inr ''a.txt'', 2)"
    by (simp add: Tool_execute_def ls_tool_def list_files_def)
  note main = execute_contains_tool_failure[OF registry_sample_tools(2) raised failure]
  from main have run: "execute registry_sample ''boom'' [] host0 =
     (Inr (''Error executing '' @ apos @ ''boom'' @ apos @ '': boom''),
      \<lparr>world = 1, logged = [Debug_executing ''boom'' [], Error_failed ''boom'' ''boom'']\<rparr>)"
    by (simp add: host0_def ValueError_def)
  from main registry_sample_tools(1) ls
  have later: "fst (execute registry_sample ''ls'' [(''path'', JStr ''.'')]
               (snd (execute registry_sample ''boom'' [] host0))) = Inr ''a.txt''"
    by blast
  from run later show ?thesis
    by (rule conjI)
qed

text \<open>
  C4, as amended. When the \<open>arguments\<close> field is a string on which \<open>json.loads\<close> raises
  \<open>JSONDecodeError\<close>, the one failure that the clause \<open>except json.JSONDecodeError\<close>
  catches, \<open>execute_tool_call\<close> returns the string
  \<open>Error: Invalid JSON arguments for tool '<name>'\<close>, whatever the registry holds. The
  host state comes back as it was: no log line of \<open>execute\<close> was written, so the
  registry was not consulted, and the world is untouched, so no tool ran.
\<close>

theorem execute_tool_call_invalid_json:
  assumes "call_arguments tc = Some (JStr s)"
      and "json_loads s = Inl e"
      and "isinstance e [''JSONDecodeError'']"
  shows "execute_tool_call json_loads registry tc h =
           (Inr (''Error: Invalid JSON arguments for tool '' @ apos
                 @ (case call_name tc of None \<Rightarrow> [] | Some n \<Rightarrow> n) @ apos), h)
       \<and> sublist ''Invalid JSON''
           (''Error: Invalid JSON arguments for tool '' @ apos
            @ (case call_name tc of None \<Rightarrow> [] | Some n \<Rightarrow> n) @ apos)"
proof -
  have run: "execute_tool_call json_loads registry tc h =
           (Inr (''Error: Invalid JSON arguments for tool '' @ apos
                 @ (case call_name tc of None \<Rightarrow> [] | Some n \<Rightarrow> n) @ apos), h)"
    using assms by (simp add: execute_tool_call_def)
  have words: "sublist ''Invalid JSON''
           (''Error: Invalid JSON arguments for tool '' @ apos
            @ (case call_name tc of None \<Rightarrow> [] | Some n \<Rightarrow> n) @ apos)"
    using sublist_mid[of "''Invalid JSON''" "''Error: ''"
        "'' arguments for tool '' @ apos @ (case call_name tc of None \<Rightarrow> [] | Some n \<Rightarrow> n) @ apos"]
    by simp
  from run words show ?thesis by blast
qed

theorem execute_tool_call_invalid_json_witness:
  "execute_tool_call json_loads_sample registry_sample
     \<lparr>call_name = Some ''ls'', call_arguments = Some (JStr ''{not valid json'')\<rparr> host0 =
   (Inr (''Error: Invalid JSON arguments for tool '' @ apos @ ''ls'' @ apos), host0)"
proof -
  have decode: "json_loads_sample ''{not valid json'' =
      Inl (JSONDecodeError
             ''Expecting property name enclosed in double quotes: line 1 column 2 (char 1)'')"
    by (simp add: json_loads_sample_def)
  have kind: "isinstance (JSONDecodeError
             ''Expecting property name enclosed in double quotes: line 1 column 2 (char 1)'')
           [''JSONDecodeError'']"
    by (simp add: JSONDecodeError_def)
  have field: "call_arguments \<lparr>call_name = Some ''ls'',
                 call_arguments = Some (JStr ''{not valid json'')\<rparr>
               = Some (JStr ''{not valid json'')"
    by simp
  from execute_tool_call_invalid_json[where json_loads = json_loads_sample
      and registry = registry_sample and h = host0, OF field decode kind]
  show ?thesis by simp
qed

text \<open>
  C4 as stated fails. A string can fail to deserialize with another exception: on a
  thousand opening brackets, which are no JSON document, \<open>json.loads\<close> raises
  \<open>RecursionError\<close>. The clause does not catch it, and \<open>execute_tool_call\<close> raises
  it instead of returning the error string.
\<close>

theorem execute_tool_call_invalid_json_counterexample:
  "fst (execute_tool_call json_loads_sample registry_sample
          \<lparr>call_name = Some ''ls'', call_arguments = Some (JStr deep_array)\<rparr> host0)
     = Inl (RecursionError
         ''maximum recursion depth exceeded while decoding a JSON array from a unicode string'')
   \<and> fst (execute_tool_call json_loads_sample registry_sample
          \<lparr>call_name = Some ''ls'', call_arguments = Some (JStr deep_array)\<rparr> host0)
     \<noteq> Inr (''Error: Invalid JSON arguments for tool '' @ apos @ ''ls'' @ apos)"
  by (simp add: execute_tool_call_def json_loads_sample_def RecursionError_def)

text \<open>
  C5. Registration is last-write-wins. After a second registration under the same name
  \<open>get\<close> returns the descriptor built from the second description, parameter list and
  implementation, and \<open>execute\<close> runs the second implementation: its result (or the
  error string made from its failure) is what comes back, and its effect on the world
  is the one that took place. \<open>register\<close> has no failing branch.
\<close>

theorem register_last_write_wins:
  "get (register (register self name d1 p1 f1) name d2 p2 f2) name =
     Some \<lparr>tool_name = name, tool_description = d2, tool_function = f2,
           tool_parameters = (case p2 of None \<Rightarrow> [] | Some ps \<Rightarrow> ps)\<rparr>
   \<and> fst (execute (register (register self name d1 p1 f1) name d2 p2 f2) name kwargs h) =
       (case f2 kwargs (world h) of
          (Inr result, w) \<Rightarrow> Inr result
        | (Inl e, w) \<Rightarrow>
            if isinstance e [''Exception'']
            then Inr (''Error executing '' @ apos @ name @ apos @ '': '' @ exn_str e)
            else Inl e)
   \<and> world (snd (execute (register (register self name d1 p1 f1) name d2 p2 f2) name kwargs h))
       = snd (f2 kwargs (world h))"
  by (simp add: register_def get_def execute_def Tool_execute_def logger_def Let_def
        split: prod.splits sum.splits)

theorem register_last_write_wins_witness:
  "fst (execute (register (register \<lparr>tools = Map.empty\<rparr> ''x'' ''first'' None boom)
                   ''x'' ''second'' None list_files) ''x'' [] host0) = Inr ''a.txt''"
  using register_last_write_wins[of "\<lparr>tools = Map.empty\<rparr>" "''x''" "''first''" None boom
          "''second''" None list_files "[]" host0]
  by (simp add: list_files_def)

text \<open>
  C1 does not hold of the code. The call \<open>registry.execute(name, **arguments)\<close> sits
  outside every \<open>try\<close>: when the serialized arguments are valid JSON for something
  other than an object, unpacking them raises \<open>TypeError\<close>, and \<open>execute_tool_call\<close>
  raises instead of returning a string. This holds for every decoder, registry and host.
\<close>

theorem execute_tool_call_raises_on_non_mapping:
  assumes "call_arguments tc = Some (JStr s)"
      and "json_loads s = Inr v"
      and "type_name v \<noteq> ''dict''"
  shows "execute_tool_call json_loads registry tc h =
           (Inl (TypeError
                   (''tools.ToolRegistry.execute() argument after ** must be a mapping, not ''
                    @ type_name v)), h)"
  using assms by (cases v) (simp_all add: execute_tool_call_def unpack_kwargs_def)

theorem execute_tool_call_raises_on_json_list:
  "execute_tool_call json_loads_sample registry_sample
     \<lparr>call_name = Some ''ls'', call_arguments = Some (JStr ''[1, 2]'')\<rparr> host0 =
   (Inl (TypeError ''tools.ToolRegistry.execute() argument after ** must be a mapping, not list''),
    host0)"
proof -
  have field: "call_arguments \<lparr>call_name = Some ''ls'', call_arguments = Some (JStr ''[1, 2]'')\<rparr>
               = Some (JStr ''[1, 2]'')"
    by simp
  have decode: "json_loads_sample ''[1, 2]'' = Inr (JList [JInt 1, JInt 2])"
    by (simp add: json_loads_sample_def)
  have kind: "type_name (JList [JInt 1, JInt 2]) \<noteq> ''dict''"
    by simp
  from execute_tool_call_raises_on_non_mapping[where json_loads = json_loads_sample
      and registry = registry_sample and h = host0, OF field decode kind]
  show ?thesis by simp
qed

text \<open>
  The same happens for a mapping that has the key \<open>name\<close> (or \<open>self\<close>): the key collides
  with a positional parameter of \<open>ToolRegistry.execute\<close>.
\<close>

lemma execute_tool_call_raises_on_reserved_key:
  "execute_tool_call json_loads registry
     \<lparr>call_name = Some ''ls'', call_arguments = Some (JDict [(''name'', JStr ''x'')])\<rparr> h =
   (Inl (TypeError (''ToolRegistry.execute() got multiple values for argument ''
                    @ apos @ ''name'' @ apos)), h)"
  by (simp add: execute_tool_call_def unpack_kwargs_def)

text \<open>
  What does hold of the dispatch: when the arguments are, or decode to, a mapping without
  the keys \<open>self\<close> and \<open>name\<close>, the call is that of \<open>execute\<close>; and \<open>execute\<close> returns a
  string whenever the tool is missing, returns, or raises an instance of \<open>Exception\<close>.
\<close>

lemma no_reserved_keys:
  "''self'' \<notin> fst ` set kvs \<Longrightarrow> ''name'' \<notin> fst ` set kvs \<Longrightarrow>
   filter (\<lambda>k. k = ''self'' \<or> k = ''name'') (map fst kvs) = []"
  by (induction kvs) auto

lemma execute_tool_call_mapping:
  assumes "call_arguments tc = Some (JDict kvs)"
      and "''self'' \<notin> fst ` set kvs" and "''name'' \<notin> fst ` set kvs"
  shows "execute_tool_call json_loads registry tc h =
           execute registry (case call_name tc of None \<Rightarrow> [] | Some n \<Rightarrow> n) kvs h"
proof -
  from assms(2,3) have "filter (\<lambda>k. k = ''self'' \<or> k = ''name'') (map fst kvs) = []"
    by (rule no_reserved_keys)
  with assms(1) show ?thesis
    by (simp add: execute_tool_call_def unpack_kwargs_def)
qed

lemma execute_tool_call_decoded_mapping:
  assumes "call_arguments tc = Some (JStr s)" and "json_loads s = Inr (JDict kvs)"
      and "''self'' \<notin> fst ` set kvs" and "''name'' \<notin> fst ` set kvs"
  shows "execute_tool_call json_loads registry tc h =
           execute registry (case call_name tc of None \<Rightarrow> [] | Some n \<Rightarrow> n) kvs h"
proof -
  from assms(3,4) have "filter (\<lambda>k. k = ''self'' \<or> k = ''name'') (map fst kvs) = []"
    by (rule no_reserved_keys)
  with assms(1,2) show ?thesis
    by (simp add: execute_tool_call_def unpack_kwargs_def)
qed

lemma execute_returns_string:
  assumes "\<And>tool e w. get self name = Some tool \<Longrightarrow>
             Tool_execute tool kwargs (world h) = (Inl e, w) \<Longrightarrow> isinstance e [''Exception'']"
  shows "\<exists>text. fst (execute self name kwargs h) = Inr text"
proof (cases "get self name")
  case None
  then show ?thesis by (simp add: execute_def)
next
  case (Some tool)
  obtain out w where run: "Tool_execute tool kwargs (world h) = (out, w)"
    by (cases "Tool_execute tool kwargs (world h)")
  show ?thesis
  proof (cases out)
    case (Inl e)
    with assms[OF Some] run have "isinstance e [''Exception'']" by simp
    with Some run Inl show ?thesis by (simp add: execute_def logger_def)
  next
    case (Inr result)
    with Some run show ?thesis by (simp add: execute_def logger_def)
  qed
qed

section \<open>Schema export\<close>

lemma dict_set_fresh: "k \<notin> fst ` set d \<Longrightarrow> dict_set d k v = d @ [(k, v)]"
  by (induction d) auto

lemma map_of_dict_set: "map_of (dict_set d k v) = (map_of d)(k \<mapsto> v)"
  by (induction d) (auto simp: fun_eq_iff)

lemma keys_dict_set: "fst ` set (dict_set d k v) = insert k (fst ` set d)"
proof (induction d)
  case Nil
  show ?case by simp
next
  case (Cons kv d)
  obtain k' v' where kv: "kv = (k', v')" by (cases kv)
  show ?case
  proof (cases "k' = k")
    case True
    then show ?thesis by (simp add: kv)
  next
    case False
    then show ?thesis using Cons.IH by (simp add: kv insert_commute)
  qed
qed

lemma find_app:
  "find P (xs @ ys) = (case find P xs of None \<Rightarrow> find P ys | Some x \<Rightarrow> Some x)"
  by (induction xs) auto

lemma schema_loop_required:
  "snd (schema_loop ps props req) = req @ map param_name (filter param_required ps)"
  by (induction ps arbitrary: props req) auto

lemma schema_loop_keys:
  "fst ` set (fst (schema_loop ps props req)) = fst ` set props \<union> param_name ` set ps"
  by (induction ps arbitrary: props req) (simp_all add: keys_dict_set)

lemma schema_loop_distinct:
  "distinct (map param_name ps) \<Longrightarrow> param_name ` set ps \<inter> fst ` set props = {} \<Longrightarrow>
   fst (schema_loop ps props req) =
     props @ map (\<lambda>p. (param_name p, \<lparr>prop_type = param_type p,
                                        prop_description = param_description p\<rparr>)) ps"
proof (induction ps arbitrary: props req)
  case Nil
  then show ?case by simp
next
  case (Cons p ps)
  from Cons.prems have fresh: "param_name p \<notin> fst ` set props" by auto
  let ?props = "props @ [(param_name p, \<lparr>prop_type = param_type p,
                                          prop_description = param_description p\<rparr>)]"
  from Cons.prems have "distinct (map param_name ps)"
    and "param_name ` set ps \<inter> fst ` set ?props = {}"
    by auto
  from Cons.IH[OF this] show ?case by (simp add: dict_set_fresh[OF fresh])
qed

lemma schema_loop_lookup:
  "map_of (fst (schema_loop ps props req)) n =
     (case find (\<lambda>p. param_name p = n) (rev ps) of
        None \<Rightarrow> map_of props n
      | Some p \<Rightarrow> Some \<lparr>prop_type = param_type p, prop_description = param_description p\<rparr>)"
proof (induction ps arbitrary: props req)
  case Nil
  then show ?case by simp
next
  case (Cons p ps)
  show ?case
    by (simp add: Cons.IH find_app map_of_dict_set split: option.splits)
qed

lemma schema_loop_default:
  "schema_loop (map (\<lambda>p. p\<lparr>param_default := d p\<rparr>) ps) props req = schema_loop ps props req"
  by (induction ps arbitrary: props req) auto

text \<open>
  C9. For every tool the exported schema has type \<open>object\<close>; \<open>required\<close> lists the names
  of exactly the parameters with \<open>required\<close> set, in parameter order; the keys of
  \<open>properties\<close> are the parameter names, and the entry of a name holds the type and the
  description of the parameter of that name (the last one, should a name occur twice: a
  dict has one entry per key). So when the names are distinct, as the parameters of a
  callable are, \<open>properties\<close> has one entry per parameter, in parameter order. The
  default values play no part: replacing them leaves the export as it is.
\<close>

theorem to_json_schema_export:
  "schema_type (to_json_schema t) = ''object''
   \<and> schema_required (to_json_schema t)
       = map param_name (filter param_required (tool_parameters t))
   \<and> fst ` set (schema_properties (to_json_schema t)) = param_name ` set (tool_parameters t)
   \<and> (\<forall>n. map_of (schema_properties (to_json_schema t)) n =
         map_option (\<lambda>p. \<lparr>prop_type = param_type p, prop_description = param_description p\<rparr>)
           (find (\<lambda>p. param_name p = n) (rev (tool_parameters t))))
   \<and> (distinct (map param_name (tool_parameters t)) \<longrightarrow>
        schema_properties (to_json_schema t) =
          map (\<lambda>p. (param_name p, \<lparr>prop_type = param_type p,
                                    prop_description = param_description p\<rparr>))
              (tool_parameters t))
   \<and> to_json_schema (t\<lparr>tool_parameters :=
                          map (\<lambda>p. p\<lparr>param_default := d p\<rparr>) (tool_parameters t)\<rparr>)
       = to_json_schema t"
proof -
  obtain props req where sl: "schema_loop (tool_parameters t) [] [] = (props, req)"
    by (cases "schema_loop (tool_parameters t) [] []")
  have sch: "to_json_schema t =
               \<lparr>schema_type = ''object'', schema_properties = props, schema_required = req\<rparr>"
    by (simp add: to_json_schema_def sl)
  have req: "req = map param_name (filter param_required (tool_parameters t))"
    using schema_loop_required[of "tool_parameters t" "[]" "[]"] sl by simp
  have keys: "fst ` set props = param_name ` set (tool_parameters t)"
    using schema_loop_keys[of "tool_parameters t" "[]" "[]"] sl by simp
  have look: "map_of props n =
         map_option (\<lambda>p. \<lparr>prop_type = param_type p, prop_description = param_description p\<rparr>)
           (find (\<lambda>p. param_name p = n) (rev (tool_parameters t)))" for n
    using schema_loop_lookup[of "tool_parameters t" "[]" "[]" n] sl
    by (simp split: option.splits)
  have dist: "props = map (\<lambda>p. (param_name p, \<lparr>prop_type = param_type p,
                                    prop_description = param_description p\<rparr>))
              (tool_parameters t)"
    if "distinct (map param_name (tool_parameters t))"
    using schema_loop_distinct[OF that, of "[]" "[]"] sl by simp
  have dflt: "to_json_schema (t\<lparr>tool_parameters :=
                          map (\<lambda>p. p\<lparr>param_default := d p\<rparr>) (tool_parameters t)\<rparr>)
       = to_json_schema t"
    by (simp add: to_json_schema_def schema_loop_default)
  show ?thesis
    unfolding dflt unfolding sch using req keys dist look by simp
qed

theorem to_json_schema_export_witness:
  "distinct (map param_name (tool_parameters ls_tool))
   \<and> schema_required (to_json_schema ls_tool) = [''recursive'']
   \<and> schema_properties (to_json_schema ls_tool) =
       [(''path'', \<lparr>prop_type = ''string'', prop_description = ''Directory to list''\<rparr>),
        (''recursive'', \<lparr>prop_type = ''boolean'', prop_description = ''Descend''\<rparr>)]"
  using to_json_schema_export[of ls_tool]
  by (simp add: ls_tool_def ls_parameters_def)

section \<open>The retry wrapper\<close>

text \<open>
  Three facts on the \<open>except\<close> clause, for every library. On the last attempt it
  re-raises the failure it caught, provided \<open>func.__name__\<close> can be read for the log
  line. Before the last attempt, a power that overflows ends the wrapper with the
  \<open>OverflowError\<close>, whatever the failure was. And when the power is a float, the name can
  be read, the callback returns and \<open>time.sleep\<close> accepts the delay, the clause sleeps
  exactly once, for the capped delay (times the jitter factor under jitter), and lets
  the loop go on.
\<close>

lemma except_clause_last:
  "func_name func = Inr name \<Longrightarrow>
   except_clause lib pol func e (max_attempts pol) rt =
     (Inl e, rt\<lparr>rt_logged := rt_logged rt
                @ [Error_exhausted name (max_attempts pol) (exn_str e)]\<rparr>)"
  by (simp add: except_clause_def)

lemma except_clause_overflow:
  "attempt \<noteq> max_attempts pol \<Longrightarrow>
   float_pow lib (exponential_base pol) (attempt - 1) = Inl err \<Longrightarrow>
   except_clause lib pol func e attempt rt = (Inl err, rt)"
  by (simp add: except_clause_def)

lemma except_clause_proceeds:
  assumes "attempt \<noteq> max_attempts pol"
      and "float_pow lib (exponential_base pol) (attempt - 1) = Inr raised_to"
      and "func_name func = Inr name"
      and "\<And>callback. on_retry pol = Some callback \<Longrightarrow>
             callback e attempt (rt_world rt) = (Inr (), after_callback (rt_world rt))"
      and "time_sleep lib (backoff_delay lib pol raised_to (rt_draws rt)) = None"
  shows "except_clause lib pol func e attempt rt =
     (Inr (),
      rt\<lparr>rt_world := (case on_retry pol of None \<Rightarrow> rt_world rt
                         | Some callback \<Rightarrow> after_callback (rt_world rt)),
         rt_draws := (if jitter pol then Suc (rt_draws rt) else rt_draws rt),
         rt_callbacks := (case on_retry pol of None \<Rightarrow> rt_callbacks rt
                          | Some callback \<Rightarrow> rt_callbacks rt @ [(e, attempt)]),
         rt_sleeps := rt_sleeps rt @ [backoff_delay lib pol raised_to (rt_draws rt)],
         rt_logged := rt_logged rt
           @ [Warning_retrying name attempt (max_attempts pol)
                (backoff_delay lib pol raised_to (rt_draws rt)) (exn_str e)]\<rparr>)"
proof (cases "on_retry pol")
  case None
  with assms(1,2,3,5) show ?thesis
    by (cases "jitter pol") (simp_all add: except_clause_def backoff_delay_def Let_def)
next
  case (Some callback)
  with assms(1,2,3,5) assms(4)[OF Some] show ?thesis
    by (cases "jitter pol") (simp_all add: except_clause_def backoff_delay_def Let_def)
qed

lemma except_clause_calls:
  "except_clause lib pol func e attempt rt = (r, rt') \<Longrightarrow> rt_calls rt' = rt_calls rt"
  by (auto simp: except_clause_def Let_def
        split: if_splits option.splits prod.splits sum.splits)

lemma except_clause_continues:
  assumes "attempt \<noteq> max_attempts pol"
      and "float_pow lib (exponential_base pol) (attempt - 1) = Inr raised_to"
      and "func_name func = Inr name"
      and "\<And>callback. on_retry pol = Some callback \<Longrightarrow> fst (callback e attempt (rt_world rt)) = Inr ()"
      and "time_sleep lib (backoff_delay lib pol raised_to (rt_draws rt)) = None"
  shows "\<exists>rt'. except_clause lib pol func e attempt rt = (Inr (), rt')
           \<and> rt_calls rt' = rt_calls rt
           \<and> rt_sleeps rt' = rt_sleeps rt @ [backoff_delay lib pol raised_to (rt_draws rt)]"
proof (cases "on_retry pol")
  case None
  with assms(1,2,3,5) show ?thesis
    by (cases "jitter pol") (simp_all add: except_clause_def backoff_delay_def Let_def)
next
  case (Some callback)
  obtain w where "callback e attempt (rt_world rt) = (Inr (), w)"
    using assms(4)[OF Some] by (cases "callback e attempt (rt_world rt)") simp
  with Some assms(1,2,3,5) show ?thesis
    by (cases "jitter pol") (simp_all add: except_clause_def backoff_delay_def Let_def)
qed

lemma attempts_exhausted:
  assumes fails: "\<And>w. \<exists>e. fst (func_call func w) = Inl e \<and> isinstance e (exceptions pol)"
      and name: "func_name func = Inr name"
      and steps: "\<And>k. 1 \<le> k \<Longrightarrow> k < max_attempts pol \<Longrightarrow>
                    \<exists>p. float_pow lib (exponential_base pol) (k - 1) = Inr p
                      \<and> (\<forall>n. time_sleep lib (backoff_delay lib pol p n) = None)"
      and cb: "\<And>callback e k w. on_retry pol = Some callback \<Longrightarrow> fst (callback e k w) = Inr ()"
  shows "1 \<le> a \<Longrightarrow> a \<le> max_attempts pol \<Longrightarrow> n = nat (max_attempts pol - a) \<Longrightarrow>
         \<exists>e rt' es. attempts lib pol func [a .. max_attempts pol] last_exception rt = (Inl e, rt')
            \<and> rt_calls rt' = rt_calls rt @ es \<and> length es = Suc n
            \<and> last es = Some e \<and> None \<notin> set es"
proof (induction n arbitrary: a rt last_exception)
  case 0
  then have a: "a = max_attempts pol" by simp
  obtain e w where f: "func_call func (rt_world rt) = (Inl e, w)"
    and q: "isinstance e (exceptions pol)"
    using fails[of "rt_world rt"] by (cases "func_call func (rt_world rt)") auto
  have "attempts lib pol func [a .. max_attempts pol] last_exception rt =
          (Inl e, rt\<lparr>rt_world := w, rt_calls := rt_calls rt @ [Some e],
                      rt_logged := rt_logged rt
                        @ [Error_exhausted name (max_attempts pol) (exn_str e)]\<rparr>)"
    by (simp add: a f q except_clause_last[OF name])
  then show ?case by simp
next
  case (Suc n)
  then have lt: "a < max_attempts pol" and n: "n = nat (max_attempts pol - (a + 1))"
    and le: "a + 1 \<le> max_attempts pol" and pos: "1 \<le> a + 1" by simp_all
  obtain e w where f: "func_call func (rt_world rt) = (Inl e, w)"
    and q: "isinstance e (exceptions pol)"
    using fails[of "rt_world rt"] by (cases "func_call func (rt_world rt)") auto
  let ?rt1 = "rt\<lparr>rt_world := w, rt_calls := rt_calls rt @ [Some e]\<rparr>"
  obtain p where p: "float_pow lib (exponential_base pol) (a - 1) = Inr p"
    and sl: "\<forall>n. time_sleep lib (backoff_delay lib pol p n) = None"
    using steps[OF Suc.prems(1) lt] by blast
  obtain rt2 where ec: "except_clause lib pol func e a ?rt1 = (Inr (), rt2)"
    and calls2: "rt_calls rt2 = rt_calls rt @ [Some e]"
    using except_clause_continues[of a pol lib p func name e ?rt1] lt p name cb sl by auto
  from Suc.IH[OF pos le n, of "Some e" rt2]
  obtain e' rt' es where
    run: "attempts lib pol func [a + 1 .. max_attempts pol] (Some e) rt2 = (Inl e', rt')"
    and calls: "rt_calls rt' = rt_calls rt2 @ es" and len: "length es = Suc n"
    and lst: "last es = Some e'" and nn: "None \<notin> set es"
    by blast
  have up: "[a .. max_attempts pol] = a # [a + 1 .. max_attempts pol]"
    using lt by (simp add: upto_rec1)
  have "attempts lib pol func [a .. max_attempts pol] last_exception rt = (Inl e', rt')"
    by (simp add: up f q ec run)
  moreover have "rt_calls rt' = rt_calls rt @ (Some e # es)"
    by (simp add: calls calls2)
  moreover have "length (Some e # es) = Suc (Suc n)" "last (Some e # es) = Some e'"
    "None \<notin> set (Some e # es)"
    using len lst nn by auto
  ultimately show ?case by blast
qed

text \<open>
  What holds of exhaustion: under a policy with \<open>max_attempts = N \<ge> 1\<close>, if the target
  fails with a qualifying failure whenever it is invoked, and if nothing else raises on
  the way (the name of the target can be read, the power of every attempt before the
  last is a float, the sleeps are accepted and the callback returns), the wrapper
  invokes the target exactly \<open>N\<close> times and raises the failure of the \<open>N\<close>-th invocation.
\<close>

lemma retry_exhaustion_without_library_errors:
  assumes "1 \<le> max_attempts pol"
      and "\<forall>w. \<exists>e. fst (func_call func w) = Inl e \<and> isinstance e (exceptions pol)"
      and "func_name func = Inr name"
      and "\<forall>k. 1 \<le> k \<and> k < max_attempts pol \<longrightarrow>
             (\<exists>p. float_pow lib (exponential_base pol) (k - 1) = Inr p
                \<and> (\<forall>n. time_sleep lib (backoff_delay lib pol p n) = None))"
      and "\<forall>callback e k w. on_retry pol = Some callback \<longrightarrow> fst (callback e k w) = Inr ()"
  shows "\<exists>e rt' es. sync_wrapper lib pol func rt = (Inl e, rt')
           \<and> rt_calls rt' = rt_calls rt @ es
           \<and> length es = nat (max_attempts pol)
           \<and> es ! (nat (max_attempts pol) - 1) = Some e
           \<and> None \<notin> set es"
proof -
  from attempts_exhausted[of func pol name lib 1 "nat (max_attempts pol - 1)" None rt] assms
  obtain e rt' es where
    run: "attempts lib pol func [1 .. max_attempts pol] None rt = (Inl e, rt')"
    and calls: "rt_calls rt' = rt_calls rt @ es"
    and len: "length es = Suc (nat (max_attempts pol - 1))"
    and lst: "last es = Some e" and nn: "None \<notin> set es"
    by blast
  from len have ne: "es \<noteq> []" by auto
  have len': "length es = nat (max_attempts pol)" using len assms(1) by simp
  have "es ! (length es - 1) = Some e"
    using lst ne by (simp add: last_conv_nth)
  then have "es ! (nat (max_attempts pol) - 1) = Some e"
    unfolding len' .
  with len' show ?thesis using run calls nn by (auto simp: sync_wrapper_def)
qed

lemmas eval_defs = upto_rec1 Let_def sync_wrapper_def except_clause_def py_min_def
  library_sample_def ValueError_def TypeError_def OverflowError_def AttributeError_def
  runtime0_def failing_func_def func_with_wrong_exception_def

lemma retry_exhaustion_example:
  "sync_wrapper library_sample policy_callback failing_func runtime0 =
     (Inl (ValueError ''Persistent error II''),
      \<lparr>rt_world = 3, rt_draws = 2,
       rt_calls = [Some (ValueError ''Persistent error ''), Some (ValueError ''Persistent error I''),
                   Some (ValueError ''Persistent error II'')],
       rt_callbacks = [(ValueError ''Persistent error '', 1), (ValueError ''Persistent error I'', 2)],
       rt_sleeps = [3 / 256, 3 / 128],
       rt_logged = [Warning_retrying ''failing_func'' 1 3 (3 / 256) ''Persistent error '',
                    Warning_retrying ''failing_func'' 2 3 (3 / 128) ''Persistent error I'',
                    Error_exhausted ''failing_func'' 3 ''Persistent error II'']\<rparr>)"
  by (simp add: eval_defs policy_callback_def)

text \<open>
  C6 does not hold of the code. The delay is computed before it is capped: under
  \<open>retry(max_attempts=4, base_delay=0.0, exponential_base=2.0 ** 600, jitter=False)\<close> a
  target that fails with a qualifying failure on every attempt is invoked three times,
  not four, because after the third failure the power \<open>(2.0 ** 600) ** 2\<close> raises
  \<open>OverflowError\<close>. That exception, which the target never raised, is what leaves the
  wrapper.
\<close>

theorem retry_overflow_replaces_last_failure:
  "sync_wrapper library_sample policy_overflow failing_func runtime0 =
     (Inl (OverflowError (''(34, '' @ apos @ ''Numerical result out of range'' @ apos @ '')'')),
      \<lparr>rt_world = 3, rt_draws = 0,
       rt_calls = [Some (ValueError ''Persistent error ''), Some (ValueError ''Persistent error I''),
                   Some (ValueError ''Persistent error II'')],
       rt_callbacks = [], rt_sleeps = [0, 0],
       rt_logged = [Warning_retrying ''failing_func'' 1 4 0 ''Persistent error '',
                    Warning_retrying ''failing_func'' 2 4 0 ''Persistent error I'']\<rparr>)"
  by (simp add: eval_defs policy_overflow_def)

text \<open>
  A target without \<open>__name__\<close> has the like effect: the log line raises
  \<open>AttributeError\<close> after the first failure.
\<close>

lemma unnamed_target_raises_attribute_error:
  "sync_wrapper library_sample policy3
     failing_partial runtime0 =
   (Inl (AttributeError (apos @ ''functools.partial'' @ apos @ '' object has no attribute ''
                         @ apos @ ''__name__'' @ apos)),
    \<lparr>rt_world = 1, rt_draws = 0, rt_calls = [Some (ValueError ''Persistent error '')],
     rt_callbacks = [], rt_sleeps = [], rt_logged = []\<rparr>)"
  by (simp add: eval_defs failing_partial_def policy3_def)

text \<open>
  C7. Under a policy with at least one attempt, a target whose first invocation raises
  a failure outside the retryable classes is invoked exactly once, and that failure
  leaves the wrapper at once: apart from this one invocation and its effect on the
  world the runtime is unchanged, so there was no sleep, no callback, no random draw and
  no log line.
\<close>

theorem non_qualifying_failure_not_retried:
  assumes "1 \<le> max_attempts pol"
      and "func_call func (rt_world rt) = (Inl e, w)"
      and "\<not> isinstance e (exceptions pol)"
  shows "sync_wrapper lib pol func rt =
           (Inl e, rt\<lparr>rt_world := w, rt_calls := rt_calls rt @ [Some e]\<rparr>)"
proof -
  have "[1 .. max_attempts pol] = 1 # [2 .. max_attempts pol]"
    using assms(1) by (simp add: upto_rec1)
  with assms(2,3) show ?thesis by (simp add: sync_wrapper_def)
qed

theorem non_qualifying_failure_not_retried_witness:
  "sync_wrapper library_sample policy_value_error func_with_wrong_exception runtime0 =
     (Inl (TypeError ''Not retried''),
      \<lparr>rt_world = 1, rt_draws = 0, rt_calls = [Some (TypeError ''Not retried'')],
       rt_callbacks = [], rt_sleeps = [], rt_logged = []\<rparr>)"
proof -
  have many: "1 \<le> max_attempts policy_value_error"
    by (simp add: policy_value_error_def)
  have raised: "func_call func_with_wrong_exception (rt_world runtime0)
                  = (Inl (TypeError ''Not retried''), 1)"
    by (simp add: func_with_wrong_exception_def runtime0_def)
  have other: "\<not> isinstance (TypeError ''Not retried'') (exceptions policy_value_error)"
    by (simp add: policy_value_error_def TypeError_def)
  from non_qualifying_failure_not_retried[where pol = policy_value_error and lib = library_sample and rt = runtime0
      and func = func_with_wrong_exception and e = "TypeError ''Not retried''" and w = 1,
      OF many raised other]
  show ?thesis
    by (simp add: runtime0_def)
qed

text \<open>
  C8 does not hold of the code, by the defect that C6 meets. Under the policy above,
  now with jitter, the third of four attempts ends in a qualifying failure, but no
  delay follows it and there is no fourth attempt: the power of the delay raises
  \<open>OverflowError\<close> before \<open>min\<close> can cap it. The run has slept twice, after the first two
  attempts.
\<close>

theorem backoff_overflow_skips_delay:
  "max_attempts (policy_overflow\<lparr>jitter := True\<rparr>) = 4
   \<and> fst (sync_wrapper library_sample (policy_overflow\<lparr>jitter := True\<rparr>) failing_func runtime0)
       = Inl (OverflowError (''(34, '' @ apos @ ''Numerical result out of range'' @ apos @ '')''))
   \<and> rt_calls (snd (sync_wrapper library_sample (policy_overflow\<lparr>jitter := True\<rparr>)
                       failing_func runtime0))
       = [Some (ValueError ''Persistent error ''), Some (ValueError ''Persistent error I''),
          Some (ValueError ''Persistent error II'')]
   \<and> rt_sleeps (snd (sync_wrapper library_sample (policy_overflow\<lparr>jitter := True\<rparr>)
                        failing_func runtime0))
       = [0, 0]"
  by (simp add: eval_defs policy_overflow_def)

text \<open>
  The floats depart from the claim in one more place: the sum \<open>0.5 + random.random()\<close>
  is rounded, and for the largest random number it is \<open>1.5\<close>, the end that the interval
  of the claim leaves out. The sleeps are then the capped delays times \<open>1.5\<close>.
\<close>

lemma jitter_factor_reaches_upper_end:
  "rt_sleeps (snd (sync_wrapper library_rounding policy_capped failing_func runtime0))
     = [10 * (3 / 2), 15 * (3 / 2), 15 * (3 / 2), 15 * (3 / 2)]"
  by (simp add: eval_defs library_rounding_def policy_capped_def)

text \<open>
  C10. With \<open>max_attempts \<le> 0\<close> the range of attempts is empty: the wrapper never
  invokes the target, changes nothing and returns \<open>None\<close>.
\<close>

theorem no_attempts_returns_none:
  assumes "max_attempts pol \<le> 0"
  shows "sync_wrapper lib pol func rt = (Inr None, rt)"
  using assms by (simp add: sync_wrapper_def)

theorem no_attempts_returns_none_witness:
  "max_attempts (policy3\<lparr>max_attempts := 0\<rparr>) \<le> 0
   \<and> sync_wrapper library_sample (policy3\<lparr>max_attempts := 0\<rparr>) failing_func runtime0
       = (Inr None, runtime0)"
  using no_attempts_returns_none[of "policy3\<lparr>max_attempts := 0\<rparr>" library_sample failing_func runtime0]
  by simp

end
